theory Spec2Isabelle
  imports Complex_Main
begin

section \<open>Values and errors\<close>

text \<open>
  The monetary fields of the models are Django \<open>DecimalField\<close>s holding Python
  \<open>Decimal\<close> values.  A \<open>Decimal\<close> is a decimal fraction, and the methods modelled
  here combine such values with \<open>+\<close>, \<open>-\<close>, \<open>*\<close>, \<open>/\<close> and comparisons only, so a
  value is modelled by the rational number it denotes.  The quantisation that the
  database column applies when a row is written (2 decimal places for amounts and
  balances, 8 for rates) and the 28-digit working precision of \<open>Decimal\<close> are below
  the resolution of this model.
\<close>

type_synonym decimal = rat

text \<open>
  The exceptions the modelled code can raise: \<open>ValidationError\<close> by a field validator
  or a missing related row on the validated entry points, \<open>TypeError\<close> by Python when
  a number is compared with \<open>None\<close>.
\<close>

datatype error = ValidationError | TypeError

section \<open>Budgets (src/budgets/models.py)\<close>

text \<open>
  \<open>class Budget\<close>.  \<open>alert_threshold\<close> is a \<open>CharField\<close>, so it is a string here
  and any string can be stored; \<open>custom_alert_percentage\<close> is declared \<open>null=True\<close>,
  so it is optional.  The fields that no modelled method reads (name, period,
  timestamps) are left out.
\<close>

record budget =
  total_budget :: decimal
  total_spent :: decimal
  total_income :: decimal
  alert_threshold :: string
  custom_alert_percentage :: "decimal option"

definition get_spending_percentage :: "budget \<Rightarrow> decimal" where
  "get_spending_percentage self =
     (if total_budget self = 0 then 0
      else (total_spent self / total_budget self) * 100)"

definition get_remaining_amount :: "budget \<Rightarrow> decimal" where
  "get_remaining_amount self = total_budget self - total_spent self"

definition is_over_budget :: "budget \<Rightarrow> bool" where
  "is_over_budget self = (total_spent self > total_budget self)"

text \<open>
  \<open>Budget.should_alert\<close>.  The comparison \<open>percentage >= self.custom_alert_percentage\<close>
  raises \<open>TypeError\<close> in Python when the right-hand side is \<open>None\<close>; every other
  path returns a boolean.
\<close>

definition should_alert :: "budget \<Rightarrow> error + bool" where
  "should_alert self =
     (let percentage = get_spending_percentage self in
      if alert_threshold self = ''80_percent'' then Inr (percentage \<ge> 80)
      else if alert_threshold self = ''90_percent'' then Inr (percentage \<ge> 90)
      else if alert_threshold self = ''100_percent'' then Inr (percentage \<ge> 100)
      else if alert_threshold self = ''custom'' then
        (case custom_alert_percentage self of
           None \<Rightarrow> Inl TypeError
         | Some c \<Rightarrow> Inr (percentage \<ge> c))
      else Inr False)"


text \<open>The budget of the specification's third scenario.\<close>

definition scenario3_budget :: budget where
  "scenario3_budget =
     \<lparr>total_budget = 1000, total_spent = 950, total_income = 0,
      alert_threshold = ''90_percent'', custom_alert_percentage = None\<rparr>"

text \<open>
  The specification's formula for the spending percentage, for comparison with the
  code: \<open>0\<close> if the total budget is \<open>0\<close>, else spent over budget times \<open>100\<close>.
\<close>

definition spec_spending_percentage :: "decimal \<Rightarrow> decimal \<Rightarrow> decimal" where
  "spec_spending_percentage spent budgeted =
     (if budgeted = 0 then 0 else spent / budgeted * 100)"

section \<open>Accounts (src/accounts/models.py)\<close>

text \<open>
  \<open>class Account\<close>: the primary key, the owner, the name and the two balances.
  The presentation fields (type, currency, colour, icon, timestamps) are read by no
  modelled method and are left out.
\<close>

record account =
  account_id :: nat
  owner :: nat
  name :: string
  initial_balance :: decimal
  current_balance :: decimal

text \<open>
  A model instance in memory refers to its related \<open>Account\<close> objects; two
  references may denote the same object, and two objects may be copies of the same
  database row.  The objects live in a heap indexed by reference; the database
  holds one row per primary key.
\<close>

type_synonym ref = nat
type_synonym heap = "ref \<Rightarrow> account"

text \<open>The stored row of an \<open>AccountTransfer\<close>: related accounts by primary key.\<close>

record transfer_row =
  transfer_id :: nat
  transfer_user :: nat
  from_account_id :: nat
  to_account_id :: nat
  transfer_amount :: decimal
  transfer_exchange_rate :: decimal
  transfer_converted_amount :: decimal

text \<open>
  The stored row of a \<open>Transaction\<close>.  \<open>balance_after\<close> is declared \<open>null=True\<close>.
\<close>

record transaction_row =
  transaction_id :: nat
  transaction_user :: nat
  transaction_amount :: decimal
  row_transaction_type :: string
  transaction_account_id :: nat
  row_status :: string
  row_effective_amount :: decimal
  row_balance_after :: "decimal option"

text \<open>\<open>class FinancialGoal\<close> and the stored row of a \<open>GoalContribution\<close>.\<close>

record financial_goal =
  goal_id :: nat
  target_amount :: decimal
  current_amount :: decimal

record contribution_row =
  contribution_id :: nat
  contribution_goal_id :: nat
  contribution_amount :: decimal
  row_contribution_type :: string
  contribution_account_id :: nat

record database =
  account_table :: "nat \<rightharpoonup> account"
  transaction_table :: "transaction_row list"
  transfer_table :: "transfer_row list"
  goal_table :: "nat \<rightharpoonup> financial_goal"
  contribution_table :: "contribution_row list"

text \<open>
  \<open>Model.save()\<close> of the framework writes the instance's own row: the row with
  the instance's primary key is replaced when there is one, and a row is inserted
  otherwise.  An auto-incremented key is one above the largest key in the table.
\<close>

fun upsert :: "('r \<Rightarrow> nat) \<Rightarrow> 'r \<Rightarrow> 'r list \<Rightarrow> 'r list" where
  "upsert key r [] = [r]"
| "upsert key r (x # xs) = (if key x = key r then r # xs else x # upsert key r xs)"

definition next_id :: "nat list \<Rightarrow> nat" where
  "next_id ids = Suc (fold max ids 0)"

text \<open>\<open>Account.save()\<close>: the inherited \<open>Model.save()\<close>, keyed by the object's id.\<close>

definition account_save :: "ref \<Rightarrow> heap \<times> database \<Rightarrow> heap \<times> database" where
  "account_save self s =
     (case s of (h, db) \<Rightarrow>
        (h, db\<lparr>account_table := (account_table db)(account_id (h self) \<mapsto> h self)\<rparr>))"

text \<open>
  \<open>Account.update_balance(self, amount, transaction_type='income')\<close>.  The amounts
  passed are \<open>Decimal\<close>s already, so \<open>Decimal(str(amount))\<close> is \<open>amount\<close>.
\<close>

definition update_balance :: "ref \<Rightarrow> decimal \<Rightarrow> string \<Rightarrow> heap \<times> database \<Rightarrow> heap \<times> database" where
  "update_balance self amount transaction_type s =
     (case s of (h, db) \<Rightarrow>
        (if transaction_type = ''income''
         then account_save self
                (h(self := (h self)\<lparr>current_balance := current_balance (h self) + amount\<rparr>), db)
         else account_save self
                (h(self := (h self)\<lparr>current_balance := current_balance (h self) - amount\<rparr>), db)))"

subsection \<open>Transfers\<close>

text \<open>
  \<open>class AccountTransfer\<close>, the instance in memory.  The primary key is \<open>None\<close>
  until the first save; \<open>converted_amount\<close> has no default and is \<open>None\<close> until
  \<open>save\<close> computes it.
\<close>

record account_transfer =
  pk :: "nat option"
  user :: nat
  from_account :: ref
  to_account :: ref
  amount :: decimal
  exchange_rate :: decimal
  converted_amount :: "decimal option"

text \<open>
  \<open>AccountTransfer.save\<close>: compute the converted amount, debit and save the source
  account, credit and save the destination account, then \<open>super().save()\<close>.
\<close>

definition transfer_save ::
  "account_transfer \<Rightarrow> heap \<times> database \<Rightarrow> account_transfer \<times> heap \<times> database" where
  "transfer_save self s =
     (case s of (h, db) \<Rightarrow>
        let c = amount self * exchange_rate self;
            self1 = self\<lparr>converted_amount := Some c\<rparr>;
            h1 = h(from_account self1 :=
                     (h (from_account self1))
                       \<lparr>current_balance := current_balance (h (from_account self1)) - amount self1\<rparr>);
            s2 = account_save (from_account self1) (h1, db);
            h3 = (fst s2)(to_account self1 :=
                     (fst s2 (to_account self1))
                       \<lparr>current_balance := current_balance (fst s2 (to_account self1)) + c\<rparr>);
            s4 = account_save (to_account self1) (h3, snd s2);
            i = (case pk self1 of
                   None \<Rightarrow> next_id (map transfer_id (transfer_table (snd s4)))
                 | Some i \<Rightarrow> i);
            row = \<lparr>transfer_id = i, transfer_user = user self1,
                   from_account_id = account_id (fst s4 (from_account self1)),
                   to_account_id = account_id (fst s4 (to_account self1)),
                   transfer_amount = amount self1,
                   transfer_exchange_rate = exchange_rate self1,
                   transfer_converted_amount = c\<rparr>
        in (self1\<lparr>pk := Some i\<rparr>, fst s4,
            (snd s4)\<lparr>transfer_table := upsert transfer_id row (transfer_table (snd s4))\<rparr>))"

section \<open>Transactions (src/transactions/models.py)\<close>

text \<open>
  \<open>class Transaction\<close>, the instance in memory.  The key is a UUID that the
  instance has from its construction (\<open>default=uuid.uuid4\<close>); \<open>transaction_type\<close>
  and \<open>status\<close> are \<open>CharField\<close>s; \<open>effective_amount\<close> and \<open>balance_after\<close> are
  \<open>None\<close> until \<open>save\<close> sets them.
\<close>

record transaction =
  uuid :: nat
  tx_user :: nat
  tx_amount :: decimal
  transaction_type :: string
  account :: ref
  status :: string
  effective_amount :: "decimal option"
  balance_after :: "decimal option"

text \<open>
  \<open>Transaction.save\<close>: set the effective amount, update the account balance
  through \<open>Account.update_balance\<close>, snapshot the balance, then \<open>super().save()\<close>.
\<close>

definition transaction_save ::
  "transaction \<Rightarrow> heap \<times> database \<Rightarrow> transaction \<times> heap \<times> database" where
  "transaction_save self s =
     (let e = (if transaction_type self = ''expense'' then - tx_amount self
               else tx_amount self);
          self1 = self\<lparr>effective_amount := Some e\<rparr>;
          s1 = update_balance (account self1) (tx_amount self1) (transaction_type self1) s;
          b = current_balance (fst s1 (account self1));
          self2 = self1\<lparr>balance_after := Some b\<rparr>;
          row = \<lparr>transaction_id = uuid self2, transaction_user = tx_user self2,
                 transaction_amount = tx_amount self2,
                 row_transaction_type = transaction_type self2,
                 transaction_account_id = account_id (fst s1 (account self2)),
                 row_status = status self2,
                 row_effective_amount = e,
                 row_balance_after = Some b\<rparr>
      in (self2, fst s1,
          (snd s1)\<lparr>transaction_table :=
                     upsert transaction_id row (transaction_table (snd s1))\<rparr>))"

section \<open>Goals (src/goals/models.py)\<close>

definition get_progress_percentage :: "financial_goal \<Rightarrow> decimal" where
  "get_progress_percentage self =
     (if target_amount self = 0 then 0
      else (current_amount self / target_amount self) * 100)"

definition goal_get_remaining_amount :: "financial_goal \<Rightarrow> decimal" where
  "goal_get_remaining_amount self = target_amount self - current_amount self"

text \<open>
  \<open>class GoalContribution\<close>, the instance in memory.  The class declares fields,
  \<open>Meta\<close> and \<open>__str__\<close> only: its \<open>save\<close> is the inherited \<open>Model.save()\<close>, which
  writes the contribution's own row and nothing else.
\<close>

record goal_contribution =
  gc_pk :: "nat option"
  goal :: nat
  gc_amount :: decimal
  contribution_type :: string
  gc_account :: nat

definition contribution_save ::
  "goal_contribution \<Rightarrow> database \<Rightarrow> goal_contribution \<times> database" where
  "contribution_save self db =
     (let i = (case gc_pk self of
                 None \<Rightarrow> next_id (map contribution_id (contribution_table db))
               | Some i \<Rightarrow> i);
          row = \<lparr>contribution_id = i, contribution_goal_id = goal self,
                 contribution_amount = gc_amount self,
                 row_contribution_type = contribution_type self,
                 contribution_account_id = gc_account self\<rparr>
      in (self\<lparr>gc_pk := Some i\<rparr>,
          db\<lparr>contribution_table := upsert contribution_id row (contribution_table db)\<rparr>))"

section \<open>Validated entry points\<close>

text \<open>
  The model classes are registered with the admin site (\<open>admin.py\<close> of each app)
  and \<open>AccountTransfer\<close> has a \<open>ModelSerializer\<close> and a \<open>ModelViewSet\<close>
  (\<open>accounts/api\<close>).  Neither the admin classes nor the serializer declare a
  \<open>clean\<close> or \<open>validate\<close> method, so a create request is checked by the fields'
  own declarations and nothing else: the validators of the field
  (\<open>MinValueValidator(Decimal('0.01'))\<close> on every amount), its \<open>choices\<close>, and the
  existence of each related row.  A request that passes loads each related account
  as an object of its own, builds the instance and calls its \<open>save\<close>; one that
  fails raises \<open>ValidationError\<close> and \<open>save\<close> is never called.
\<close>

definition min_value_validator :: "decimal \<Rightarrow> decimal \<Rightarrow> bool" where
  "min_value_validator limit_value v = (\<not> v < limit_value)"

definition TRANSACTION_TYPES :: "string list" where
  "TRANSACTION_TYPES = [''income'', ''expense'', ''transfer'']"

definition STATUS_CHOICES :: "string list" where
  "STATUS_CHOICES = [''pending'', ''completed'', ''failed'', ''cancelled'']"

definition CONTRIBUTION_TYPES :: "string list" where
  "CONTRIBUTION_TYPES = [''manual'', ''automatic'', ''transaction'', ''transfer'']"

record transaction_request =
  rq_user :: nat
  rq_amount :: decimal
  rq_transaction_type :: string
  rq_account :: nat
  rq_status :: string

definition create_transaction ::
  "transaction_request \<Rightarrow> database \<Rightarrow> (error + transaction) \<times> database" where
  "create_transaction rq db =
     (if \<not> min_value_validator (1 / 100) (rq_amount rq) then (Inl ValidationError, db)
      else if rq_transaction_type rq \<notin> set TRANSACTION_TYPES then (Inl ValidationError, db)
      else if rq_status rq \<notin> set STATUS_CHOICES then (Inl ValidationError, db)
      else case account_table db (rq_account rq) of
             None \<Rightarrow> (Inl ValidationError, db)
           | Some a \<Rightarrow>
               (let self = \<lparr>uuid = next_id (map transaction_id (transaction_table db)),
                            tx_user = rq_user rq, tx_amount = rq_amount rq,
                            transaction_type = rq_transaction_type rq,
                            account = 0, status = rq_status rq,
                            effective_amount = None, balance_after = None\<rparr>;
                    r = transaction_save self (\<lambda>_. a, db)
                in (Inr (fst r), snd (snd r))))"

record transfer_request =
  rq_transfer_user :: nat
  rq_from_account :: nat
  rq_to_account :: nat
  rq_transfer_amount :: decimal
  rq_exchange_rate :: decimal

definition create_transfer ::
  "transfer_request \<Rightarrow> database \<Rightarrow> (error + account_transfer) \<times> database" where
  "create_transfer rq db =
     (if \<not> min_value_validator (1 / 100) (rq_transfer_amount rq)
      then (Inl ValidationError, db)
      else case account_table db (rq_from_account rq) of
             None \<Rightarrow> (Inl ValidationError, db)
           | Some a \<Rightarrow>
              (case account_table db (rq_to_account rq) of
                 None \<Rightarrow> (Inl ValidationError, db)
               | Some b \<Rightarrow>
                  (let self = \<lparr>pk = None, user = rq_transfer_user rq,
                               from_account = 0, to_account = 1,
                               amount = rq_transfer_amount rq,
                               exchange_rate = rq_exchange_rate rq,
                               converted_amount = None\<rparr>;
                       r = transfer_save self (\<lambda>r. if r = 0 then a else b, db)
                   in (Inr (fst r), snd (snd r)))))"

record contribution_request =
  rq_goal :: nat
  rq_contribution_amount :: decimal
  rq_contribution_type :: string
  rq_contribution_account :: nat

definition create_contribution ::
  "contribution_request \<Rightarrow> database \<Rightarrow> (error + goal_contribution) \<times> database" where
  "create_contribution rq db =
     (if \<not> min_value_validator (1 / 100) (rq_contribution_amount rq)
      then (Inl ValidationError, db)
      else if rq_contribution_type rq \<notin> set CONTRIBUTION_TYPES
      then (Inl ValidationError, db)
      else if goal_table db (rq_goal rq) = None then (Inl ValidationError, db)
      else if account_table db (rq_contribution_account rq) = None
      then (Inl ValidationError, db)
      else (let self = \<lparr>gc_pk = None, goal = rq_goal rq,
                         gc_amount = rq_contribution_amount rq,
                         contribution_type = rq_contribution_type rq,
                         gc_account = rq_contribution_account rq\<rparr>;
                r = contribution_save self db
            in (Inr (fst r), snd r)))"

section \<open>The specification's ledger equation\<close>



text \<open>The sum of the amounts of the contributions stored for a goal.\<close>

definition spec_contribution_total :: "database \<Rightarrow> nat \<Rightarrow> decimal" where
  "spec_contribution_total db g =
     sum_list (map contribution_amount
       (filter (\<lambda>c. contribution_goal_id c = g) (contribution_table db)))"

section \<open>The states of the specification's scenarios\<close>

definition empty_database :: database where
  "empty_database =
     \<lparr>account_table = Map.empty, transaction_table = [], transfer_table = [],
      goal_table = Map.empty, contribution_table = []\<rparr>"

text \<open>Scenario 1: account A with balance 100.00.\<close>

definition scenario1_db :: database where
  "scenario1_db =
     empty_database\<lparr>account_table :=
       [1 \<mapsto> \<lparr>account_id = 1, owner = 1, name = ''A'',
                initial_balance = 100, current_balance = 100\<rparr>]\<rparr>"

text \<open>Scenario 2: account A with balance 70.00 and account B with balance 0.00.\<close>

definition scenario2_db :: database where
  "scenario2_db =
     empty_database\<lparr>account_table :=
       [1 \<mapsto> \<lparr>account_id = 1, owner = 1, name = ''A'',
                initial_balance = 70, current_balance = 70\<rparr>,
        2 \<mapsto> \<lparr>account_id = 2, owner = 1, name = ''B'',
                initial_balance = 0, current_balance = 0\<rparr>]\<rparr>"

text \<open>A goal that has just been created (\<open>current_amount\<close> defaults to 0), and account A.\<close>

definition fresh_goal_db :: database where
  "fresh_goal_db =
     scenario1_db\<lparr>goal_table :=
       [1 \<mapsto> \<lparr>goal_id = 1, target_amount = 5000, current_amount = 0\<rparr>]\<rparr>"

section \<open>Observations and concrete inputs\<close>

text \<open>The stored balance of the account with a given key, if there is such a row.\<close>

definition balance_of :: "database \<Rightarrow> nat \<Rightarrow> decimal option" where
  "balance_of db k = map_option current_balance (account_table db k)"


text \<open>
  The signed amount by which \<open>Account.update_balance\<close> changes the balance for a
  transaction: plus the amount in its \<open>'income'\<close> branch, minus the amount in its
  \<open>else\<close> branch.
\<close>

definition signed_amount :: "transaction \<Rightarrow> decimal" where
  "signed_amount t = (if transaction_type t = ''income'' then tx_amount t else - tx_amount t)"



definition expense_request :: transaction_request where
  "expense_request =
     \<lparr>rq_user = 1, rq_amount = 30, rq_transaction_type = ''expense'', rq_account = 1,
      rq_status = ''completed''\<rparr>"

definition transfer_typed_request :: transaction_request where
  "transfer_typed_request =
     \<lparr>rq_user = 1, rq_amount = 30, rq_transaction_type = ''transfer'', rq_account = 1,
      rq_status = ''completed''\<rparr>"








definition contribution_of_ten :: contribution_request where
  "contribution_of_ten =
     \<lparr>rq_goal = 1, rq_contribution_amount = 10, rq_contribution_type = ''manual'',
      rq_contribution_account = 1\<rparr>"

section \<open>Sequences of requests\<close>








section \<open>Budget tracker: alerts\<close>

text \<open>
  C10: \<open>should_alert\<close> is not total.  With \<open>alert_threshold = 'custom'\<close> and
  \<open>custom_alert_percentage\<close> unset it raises (a number is compared with \<open>None\<close>)
  instead of returning a boolean; with \<open>alert_threshold = 'none'\<close>, or any value
  that is not one of the four recognised ones, it returns false.
\<close>

theorem should_alert_not_total:
  "(alert_threshold b = ''custom'' \<and> custom_alert_percentage b = None
      \<longrightarrow> should_alert b = Inl TypeError)
   \<and> (alert_threshold b = ''none'' \<longrightarrow> should_alert b = Inr False)
   \<and> (alert_threshold b \<notin> {''80_percent'', ''90_percent'', ''100_percent'', ''custom''}
      \<longrightarrow> should_alert b = Inr False)"
  by (simp add: should_alert_def Let_def)

theorem should_alert_not_total_witness:
  "should_alert \<lparr>total_budget = 1000, total_spent = 950, total_income = 0,
                 alert_threshold = ''custom'', custom_alert_percentage = None\<rparr>
     = Inl TypeError
   \<and> should_alert \<lparr>total_budget = 1000, total_spent = 950, total_income = 0,
                   alert_threshold = ''none'', custom_alert_percentage = None\<rparr>
     = Inr False
   \<and> should_alert \<lparr>total_budget = 1000, total_spent = 950, total_income = 0,
                   alert_threshold = ''weekly'', custom_alert_percentage = Some 50\<rparr>
     = Inr False"
  using should_alert_not_total
          [of "\<lparr>total_budget = 1000, total_spent = 950, total_income = 0,
                alert_threshold = ''custom'', custom_alert_percentage = None\<rparr>"]
        should_alert_not_total
          [of "\<lparr>total_budget = 1000, total_spent = 950, total_income = 0,
                alert_threshold = ''none'', custom_alert_percentage = None\<rparr>"]
        should_alert_not_total
          [of "\<lparr>total_budget = 1000, total_spent = 950, total_income = 0,
                alert_threshold = ''weekly'', custom_alert_percentage = Some 50\<rparr>"]
  by simp

lemma get_spending_percentage_nonneg:
  assumes "0 < total_budget b" and "0 \<le> total_spent b"
  shows "0 \<le> get_spending_percentage b"
proof -
  have "0 \<le> total_spent b / total_budget b"
    using assms by (simp add: divide_nonneg_pos)
  then show ?thesis
    using assms by (simp add: get_spending_percentage_def)
qed

text \<open>
  C8, as the claim states it, fails: \<open>total_spent\<close> is a plain \<open>DecimalField\<close> with
  no validator, and for a negative \<open>total_spent\<close> the percentage of a budget with a
  positive total is negative.
\<close>

theorem spending_percentage_negative_counterexample:
  "0 < total_budget \<lparr>total_budget = 100, total_spent = - 50, total_income = 0,
                      alert_threshold = ''90_percent'', custom_alert_percentage = None\<rparr>
   \<and> get_spending_percentage
        \<lparr>total_budget = 100, total_spent = - 50, total_income = 0,
         alert_threshold = ''90_percent'', custom_alert_percentage = None\<rparr> = - 50
   \<and> \<not> 0 \<le> get_spending_percentage
        \<lparr>total_budget = 100, total_spent = - 50, total_income = 0,
         alert_threshold = ''90_percent'', custom_alert_percentage = None\<rparr>"
  by (simp add: get_spending_percentage_def)

text \<open>
  C8, amended: for every budget, \<open>get_spending_percentage\<close> returns \<open>0\<close> when
  \<open>total_budget\<close> is \<open>0\<close> and \<open>(total_spent / total_budget) * 100\<close> otherwise; for
  every budget with \<open>total_budget > 0\<close> and \<open>total_spent \<ge> 0\<close> the percentage is at
  least \<open>0\<close>; and \<open>is_over_budget\<close> is true exactly when \<open>total_spent\<close> is strictly
  greater than \<open>total_budget\<close>.
\<close>

theorem spending_percentage_contract:
  "get_spending_percentage b = spec_spending_percentage (total_spent b) (total_budget b)
   \<and> (total_budget b = 0 \<longrightarrow> get_spending_percentage b = 0)
   \<and> (total_budget b \<noteq> 0 \<longrightarrow>
        get_spending_percentage b = (total_spent b / total_budget b) * 100)
   \<and> (0 < total_budget b \<and> 0 \<le> total_spent b \<longrightarrow> 0 \<le> get_spending_percentage b)
   \<and> (is_over_budget b \<longleftrightarrow> total_budget b < total_spent b)"
proof -
  have "0 < total_budget b \<and> 0 \<le> total_spent b \<longrightarrow> 0 \<le> get_spending_percentage b"
    using get_spending_percentage_nonneg by blast
  then show ?thesis
    by (simp add: get_spending_percentage_def spec_spending_percentage_def
        is_over_budget_def)
qed

theorem spending_percentage_contract_witness:
  "get_spending_percentage scenario3_budget = 95
   \<and> 0 < total_budget scenario3_budget \<and> 0 \<le> total_spent scenario3_budget
   \<and> 0 \<le> get_spending_percentage scenario3_budget
   \<and> \<not> is_over_budget scenario3_budget
   \<and> get_spending_percentage (scenario3_budget\<lparr>total_budget := 0\<rparr>) = 0"
  using spending_percentage_contract [of scenario3_budget]
        spending_percentage_contract [of "scenario3_budget\<lparr>total_budget := 0\<rparr>"]
  by (simp add: scenario3_budget_def)



section \<open>Unfolding and table lemmas\<close>

lemmas entry_defs = create_transaction_def create_transfer_def create_contribution_def
  min_value_validator_def TRANSACTION_TYPES_def STATUS_CHOICES_def CONTRIBUTION_TYPES_def

lemmas save_defs = transaction_save_def transfer_save_def contribution_save_def
  update_balance_def account_save_def next_id_def Let_def

lemmas scenario_defs = scenario1_db_def scenario2_db_def empty_database_def


lemma upsert_fresh: "key r \<notin> key ` set xs \<Longrightarrow> upsert key r xs = xs @ [r]"
  by (induction xs) auto



lemma next_id_fresh: "next_id ids \<notin> set ids"
proof
  assume "next_id ids \<in> set ids"
  then have "next_id ids \<le> Max (set (0 # ids))" by simp
  moreover have "Max (set (0 # ids)) = fold max ids 0" by (rule Max.set_eq_fold)
  ultimately show False by (simp add: next_id_def)
qed

section \<open>What the two save methods compute\<close>

lemma transaction_save_result:
  "transaction_save self (h, db) =
     (self\<lparr>effective_amount :=
             Some (if transaction_type self = ''expense'' then - tx_amount self else tx_amount self),
           balance_after := Some (current_balance (h (account self)) + signed_amount self)\<rparr>,
      h(account self :=
          (h (account self))\<lparr>current_balance := current_balance (h (account self)) + signed_amount self\<rparr>),
      db\<lparr>account_table := (account_table db)
             (account_id (h (account self)) \<mapsto>
                (h (account self))\<lparr>current_balance := current_balance (h (account self)) + signed_amount self\<rparr>),
          transaction_table := upsert transaction_id
             \<lparr>transaction_id = uuid self, transaction_user = tx_user self,
              transaction_amount = tx_amount self,
              row_transaction_type = transaction_type self,
              transaction_account_id = account_id (h (account self)),
              row_status = status self,
              row_effective_amount =
                (if transaction_type self = ''expense'' then - tx_amount self else tx_amount self),
              row_balance_after = Some (current_balance (h (account self)) + signed_amount self)\<rparr>
             (transaction_table db)\<rparr>)"
  by (simp add: transaction_save_def update_balance_def account_save_def Let_def signed_amount_def)



lemma transfer_save_accounts_aliased:
  assumes "from_account self = to_account self"
  shows "account_table (snd (snd (transfer_save self (h, db)))) =
           (account_table db)
             (account_id (h (from_account self)) \<mapsto>
                (h (from_account self))\<lparr>current_balance := current_balance (h (from_account self)) - amount self + amount self * exchange_rate self\<rparr>)"
  using assms by (simp add: transfer_save_def account_save_def Let_def)



lemma create_transfer_rejected:
  "fst (create_transfer rq db) = Inl e \<Longrightarrow> snd (create_transfer rq db) = db \<and> e = ValidationError"
  by (auto simp: create_transfer_def Let_def split: if_splits option.splits)




section \<open>Transfer engine\<close>







section \<open>Saving a record twice\<close>






section \<open>Goal tracker\<close>

text \<open>
  C7, as the claim states it, fails: \<open>GoalContribution\<close> inherits \<open>save\<close>, and
  nothing in the sources writes \<open>FinancialGoal.current_amount\<close>.  Adding a
  contribution of 10.00 to a fresh goal stores the contribution and leaves the
  goal's \<open>current_amount\<close> at 0, while the goal's contributions sum to 10.00.
\<close>

theorem contribution_not_added_counterexample:
  "goal_table fresh_goal_db 1 = Some \<lparr>goal_id = 1, target_amount = 5000, current_amount = 0\<rparr>
   \<and> fst (create_contribution contribution_of_ten fresh_goal_db)
       = Inr \<lparr>gc_pk = Some 1, goal = 1, gc_amount = 10, contribution_type = ''manual'',
              gc_account = 1\<rparr>
   \<and> goal_table (snd (create_contribution contribution_of_ten fresh_goal_db)) 1
       = Some \<lparr>goal_id = 1, target_amount = 5000, current_amount = 0\<rparr>
   \<and> spec_contribution_total (snd (create_contribution contribution_of_ten fresh_goal_db)) 1 = 10"
  by (simp add: entry_defs save_defs scenario_defs fresh_goal_db_def contribution_of_ten_def
      spec_contribution_total_def)

lemma create_contribution_goal_table:
  "goal_table (snd (create_contribution rq db)) = goal_table db"
  by (simp add: create_contribution_def contribution_save_def Let_def)

lemma create_contribution_accepted:
  assumes "fst (create_contribution rq db) = Inr c"
  shows "gc_amount c = rq_contribution_amount rq"
    and "goal c = rq_goal rq"
    and "1 / 100 \<le> rq_contribution_amount rq"
    and "contribution_table (snd (create_contribution rq db)) =
           contribution_table db @
             [\<lparr>contribution_id = next_id (map contribution_id (contribution_table db)),
               contribution_goal_id = rq_goal rq,
               contribution_amount = rq_contribution_amount rq,
               row_contribution_type = rq_contribution_type rq,
               contribution_account_id = rq_contribution_account rq\<rparr>]"
proof -
  have fresh: "next_id (map contribution_id (contribution_table db))
                 \<notin> contribution_id ` set (contribution_table db)"
    using next_id_fresh [of "map contribution_id (contribution_table db)"] by simp
  from assms show "gc_amount c = rq_contribution_amount rq"
    by (auto simp: create_contribution_def contribution_save_def Let_def split: if_splits)
  from assms show "goal c = rq_goal rq"
    by (auto simp: create_contribution_def contribution_save_def Let_def split: if_splits)
  from assms show "1 / 100 \<le> rq_contribution_amount rq"
    by (auto simp: create_contribution_def min_value_validator_def split: if_splits)
  from assms have acc: "create_contribution rq db =
      (let self = \<lparr>gc_pk = None, goal = rq_goal rq,
                         gc_amount = rq_contribution_amount rq,
                         contribution_type = rq_contribution_type rq,
                         gc_account = rq_contribution_account rq\<rparr>;
                r = contribution_save self db
            in (Inr (fst r), snd r))"
    by (auto simp: create_contribution_def split: if_splits)
  show "contribution_table (snd (create_contribution rq db)) =
           contribution_table db @
             [\<lparr>contribution_id = next_id (map contribution_id (contribution_table db)),
               contribution_goal_id = rq_goal rq,
               contribution_amount = rq_contribution_amount rq,
               row_contribution_type = rq_contribution_type rq,
               contribution_account_id = rq_contribution_account rq\<rparr>]"
    unfolding acc using fresh
    by (simp add: contribution_save_def Let_def upsert_fresh)
qed

text \<open>
  C7, amended: adding a \<open>GoalContribution\<close> leaves every goal, and so its goal's
  \<open>current_amount\<close>, unchanged (which is trivially non-decreasing); an accepted
  contribution has a positive amount and increases the sum of the amounts of the
  goal's stored contributions by exactly that amount, so \<open>current_amount\<close> is not kept
  equal to that sum.
\<close>

theorem contribution_leaves_goal_unchanged:
  "goal_table (snd (create_contribution rq db)) = goal_table db
   \<and> (\<forall>c. fst (create_contribution rq db) = Inr c \<longrightarrow>
          gc_amount c = rq_contribution_amount rq \<and> 0 < gc_amount c
          \<and> spec_contribution_total (snd (create_contribution rq db)) (rq_goal rq)
              = spec_contribution_total db (rq_goal rq) + gc_amount c)"
proof (intro conjI allI impI)
  show "goal_table (snd (create_contribution rq db)) = goal_table db"
    by (rule create_contribution_goal_table)
next
  fix c assume a: "fst (create_contribution rq db) = Inr c"
  show "gc_amount c = rq_contribution_amount rq"
    by (rule create_contribution_accepted(1) [OF a])
  show "0 < gc_amount c"
    using create_contribution_accepted(1,3) [OF a] by simp
  show "spec_contribution_total (snd (create_contribution rq db)) (rq_goal rq)
              = spec_contribution_total db (rq_goal rq) + gc_amount c"
    using create_contribution_accepted(1) [OF a]
    by (simp add: spec_contribution_total_def create_contribution_accepted(4) [OF a])
qed

theorem contribution_leaves_goal_unchanged_witness:
  "fst (create_contribution contribution_of_ten fresh_goal_db)
       = Inr \<lparr>gc_pk = Some 1, goal = 1, gc_amount = 10, contribution_type = ''manual'',
              gc_account = 1\<rparr>
   \<and> goal_table (snd (create_contribution contribution_of_ten fresh_goal_db))
       = goal_table fresh_goal_db
   \<and> spec_contribution_total fresh_goal_db 1 = 0
   \<and> spec_contribution_total (snd (create_contribution contribution_of_ten fresh_goal_db)) 1 = 10"
proof -
  have a: "fst (create_contribution contribution_of_ten fresh_goal_db)
       = Inr \<lparr>gc_pk = Some 1, goal = 1, gc_amount = 10, contribution_type = ''manual'',
              gc_account = 1\<rparr>"
    by (simp add: entry_defs save_defs scenario_defs fresh_goal_db_def contribution_of_ten_def)
  have z: "spec_contribution_total fresh_goal_db 1 = 0" "rq_goal contribution_of_ten = 1"
    by (simp_all add: spec_contribution_total_def fresh_goal_db_def scenario_defs
        contribution_of_ten_def)
  show ?thesis
    using a z contribution_leaves_goal_unchanged [of contribution_of_ten fresh_goal_db]
    by simp
qed

section \<open>Transaction recorder\<close>

lemma create_transaction_accepted:
  assumes "1 / 100 \<le> rq_amount rq"
      and "rq_transaction_type rq \<in> set TRANSACTION_TYPES"
      and "rq_status rq \<in> set STATUS_CHOICES"
      and "account_table db (rq_account rq) = Some a"
  shows "create_transaction rq db =
           (let r = transaction_save
                      \<lparr>uuid = next_id (map transaction_id (transaction_table db)),
                       tx_user = rq_user rq, tx_amount = rq_amount rq,
                       transaction_type = rq_transaction_type rq,
                       account = 0, status = rq_status rq,
                       effective_amount = None, balance_after = None\<rparr> (\<lambda>_. a, db)
            in (Inr (fst r), snd (snd r)))"
  using assms by (simp add: create_transaction_def min_value_validator_def)

text \<open>
  What an accepted recording does, for every type: the effective amount is minus
  the amount for \<open>'expense'\<close> and plus the amount otherwise; the stored balance
  grows by the amount for \<open>'income'\<close> and shrinks by it otherwise; \<open>balance_after\<close>
  is the resulting balance.
\<close>

lemma create_transaction_effect:
  assumes "1 / 100 \<le> rq_amount rq"
      and "rq_transaction_type rq \<in> set TRANSACTION_TYPES"
      and "rq_status rq \<in> set STATUS_CHOICES"
      and "account_table db (rq_account rq) = Some a"
      and "account_id a = rq_account rq"
  shows "\<exists>t. fst (create_transaction rq db) = Inr t
           \<and> effective_amount t
               = Some (if rq_transaction_type rq = ''expense'' then - rq_amount rq
                       else rq_amount rq)
           \<and> balance_after t
               = Some (if rq_transaction_type rq = ''income''
                       then current_balance a + rq_amount rq
                       else current_balance a - rq_amount rq)
           \<and> balance_of (snd (create_transaction rq db)) (rq_account rq) = balance_after t"
  unfolding create_transaction_accepted [OF assms(1-4)]
  using assms(5)
  by (simp add: Let_def transaction_save_result signed_amount_def balance_of_def)



text \<open>
  C4 at the input where the code departs from it: a completed transaction of type
  \<open>'transfer'\<close> with amount 30.00 on account A (balance 100.00).  The effective
  amount is plus 30.00, but \<open>update_balance\<close> takes its \<open>else\<close> branch and debits
  the account: the balance and \<open>balance_after\<close> are 70.00, not 130.00.  The expense
  of the first scenario behaves as the claim says (balance 70.00, effective amount
  minus 30.00, \<open>balance_after\<close> 70.00).
\<close>

theorem transfer_type_recorded_as_debit:
  "fst (create_transaction transfer_typed_request scenario1_db)
     = Inr \<lparr>uuid = 1, tx_user = 1, tx_amount = 30, transaction_type = ''transfer'',
            account = 0, status = ''completed'',
            effective_amount = Some 30, balance_after = Some 70\<rparr>
   \<and> balance_of scenario1_db 1 = Some 100
   \<and> balance_of (snd (create_transaction transfer_typed_request scenario1_db)) 1 = Some 70
   \<and> fst (create_transaction expense_request scenario1_db)
     = Inr \<lparr>uuid = 1, tx_user = 1, tx_amount = 30, transaction_type = ''expense'',
            account = 0, status = ''completed'',
            effective_amount = Some (- 30), balance_after = Some 70\<rparr>
   \<and> balance_of (snd (create_transaction expense_request scenario1_db)) 1 = Some 70"
  by (simp add: entry_defs save_defs scenario_defs balance_of_def
      transfer_typed_request_def expense_request_def)

section \<open>The ledger equation\<close>












end
